theory Spec2Isabelle
  imports Complex_Main "HOL-Library.Sublist" "HOL-Library.Product_Lexorder"
begin

section \<open>Python values used throughout\<close>

text \<open>
  Python floats are modelled as the reals (exact arithmetic: the rounding of IEEE
  doubles is not modelled), Python ints as \<open>int\<close> or \<open>nat\<close> (counts and lengths),
  \<open>str\<close> as \<open>string\<close>.  Exceptions are values of \<open>py_error\<close>.
\<close>

datatype py_error = ValueError | IndexError | KeyError | ZeroDivisionError

text \<open>\<open>int(x)\<close> on a float truncates towards zero.\<close>

definition py_int :: "real \<Rightarrow> int" where
  "py_int x = (if 0 \<le> x then \<lfloor>x\<rfloor> else \<lceil>x\<rceil>)"

text \<open>
  \<open>sorted(xs, key=k, reverse=True)\<close>: a stable sort by descending key (elements with
  equal keys keep their order).
\<close>

definition sorted_desc :: "('a \<Rightarrow> real) \<Rightarrow> 'a list \<Rightarrow> 'a list" where
  "sorted_desc k xs = sort_key (\<lambda>x. - k x) xs"

section \<open>analysis/setup\_analyzer.py: vehicle category\<close>

record telemetry_data =
  speed_kmh :: real
  td_throttle :: real
  td_brake :: real
  td_steering :: real
  td_front_downforce :: real
  td_rear_downforce :: real

text \<open>
  \<open>SetupAnalyzer._detect_vehicle_category\<close>: the first argument is the current
  \<open>self.vehicle_category\<close>, the result its value after the call.
\<close>

definition detect_vehicle_category :: "string \<Rightarrow> telemetry_data \<Rightarrow> string" where
  "detect_vehicle_category vehicle_category d =
     (if speed_kmh d > 0 then
        (if td_front_downforce d + td_rear_downforce d > 15000 then ''LMH''
         else if td_front_downforce d + td_rear_downforce d > 8000 then ''LMP2''
         else ''GT3'')
      else vehicle_category)"

section \<open>setup/telemetry\_analyzer.py: traction loss in a corner\<close>

record telemetry_point =
  tp_throttle :: real
  tp_slip_ratio_rl :: real
  tp_slip_ratio_rr :: real

definition TRACTION_SLIP_RATIO_THRESHOLD :: real where
  "TRACTION_SLIP_RATIO_THRESHOLD = 0.15"

text \<open>One iteration of the loop over the corner's points: the state is
  \<open>(traction_loss_count, max_severity)\<close>.\<close>

definition traction_step :: "telemetry_point \<Rightarrow> nat \<times> real \<Rightarrow> nat \<times> real" where
  "traction_step p st =
     (if tp_throttle p > 50 then
        (let rear_slip_ratio = max \<bar>tp_slip_ratio_rl p\<bar> \<bar>tp_slip_ratio_rr p\<bar> in
         if rear_slip_ratio > TRACTION_SLIP_RATIO_THRESHOLD then
           (Suc (fst st), max (snd st) (min 100 (rear_slip_ratio * 200)))
         else st)
      else st)"

fun traction_loop :: "telemetry_point list \<Rightarrow> nat \<times> real \<Rightarrow> nat \<times> real" where
  "traction_loop [] st = st"
| "traction_loop (p # ps) st = traction_loop ps (traction_step p st)"

definition detect_traction_loss :: "telemetry_point list \<Rightarrow> bool \<times> real" where
  "detect_traction_loss points =
     (if points = [] then (False, 0)
      else (let st = traction_loop points (0, 0) in (fst st > 3, snd st)))"

text \<open>A point that counts towards traction loss, and its severity.\<close>

definition qualifies :: "telemetry_point \<Rightarrow> bool" where
  "qualifies p \<longleftrightarrow> tp_throttle p > 50
     \<and> max \<bar>tp_slip_ratio_rl p\<bar> \<bar>tp_slip_ratio_rr p\<bar> > TRACTION_SLIP_RATIO_THRESHOLD"

definition point_severity :: "telemetry_point \<Rightarrow> real" where
  "point_severity p = min 100 (max \<bar>tp_slip_ratio_rl p\<bar> \<bar>tp_slip_ratio_rr p\<bar> * 200)"

section \<open>Insertion-ordered dictionaries\<close>

text \<open>
  A Python \<open>dict\<close> whose iteration order matters is an association list with distinct
  keys in insertion order: \<open>d[k] = v\<close> replaces the value of an existing key in place and
  appends a new key at the end; \<open>d.get(k)\<close> is \<open>map_of d k\<close>.
\<close>

fun dict_set :: "'k \<Rightarrow> 'v \<Rightarrow> ('k \<times> 'v) list \<Rightarrow> ('k \<times> 'v) list" where
  "dict_set k v [] = [(k, v)]"
| "dict_set k v (e # d) = (if fst e = k then (k, v) # d else e # dict_set k v d)"

section \<open>setup/entities/setup.py: the setup read by the correlator\<close>

datatype corner_position = FRONT_LEFT | FRONT_RIGHT | REAR_LEFT | REAR_RIGHT

text \<open>\<open>corner.position.value.lower()\<close>\<close>

fun position_prefix :: "corner_position \<Rightarrow> string" where
  "position_prefix FRONT_LEFT = ''fl''"
| "position_prefix FRONT_RIGHT = ''fr''"
| "position_prefix REAR_LEFT = ''rl''"
| "position_prefix REAR_RIGHT = ''rr''"

text \<open>The value objects (Angle, Pressure, Rate, Distance, Percentage) wrap one float; a
  field holds the number their accessor (\<open>.degrees\<close>, \<open>.kpa\<close>, \<open>.nm\<close>, \<open>.mm\<close>,
  \<open>.value\<close>) returns.\<close>

record corner_setup =
  position :: corner_position
  camber :: real
  pressure :: real
  spring_rate :: real
  ride_height :: real
  slow_bump :: int
  fast_bump :: int
  slow_rebound :: int
  fast_rebound :: int

record suspension_setup =
  front_left :: corner_setup
  front_right :: corner_setup
  rear_left :: corner_setup
  rear_right :: corner_setup
  front_arb :: int
  rear_arb :: int
  front_toe :: real
  rear_toe :: real

definition front_ride_height :: "suspension_setup \<Rightarrow> real" where
  "front_ride_height s = (ride_height (front_left s) + ride_height (front_right s)) / 2"

definition rear_ride_height :: "suspension_setup \<Rightarrow> real" where
  "rear_ride_height s = (ride_height (rear_left s) + ride_height (rear_right s)) / 2"

definition rake :: "suspension_setup \<Rightarrow> real" where
  "rake s = rear_ride_height s - front_ride_height s"

definition front_camber_avg :: "suspension_setup \<Rightarrow> real" where
  "front_camber_avg s = (camber (front_left s) + camber (front_right s)) / 2"

definition rear_camber_avg :: "suspension_setup \<Rightarrow> real" where
  "rear_camber_avg s = (camber (rear_left s) + camber (rear_right s)) / 2"

record differential_setup =
  power_lock :: real
  coast_lock :: real
  preload :: real

record aero_setup =
  front_wing :: int
  rear_wing :: int

definition estimated_balance :: "aero_setup \<Rightarrow> real" where
  "estimated_balance a =
     (let total = front_wing a + rear_wing a in
      if total = 0 then 0.5 else real_of_int (front_wing a) / real_of_int total)"

record brake_setup =
  bias :: real
  brake_pressure :: real

record car_setup =
  setup_name :: string
  suspension :: "suspension_setup option"
  differential :: "differential_setup option"
  aero :: "aero_setup option"
  brakes :: "brake_setup option"
  traction_control :: int

section \<open>setup/setup\_correlator.py\<close>

record behavior_statistics =
  understeer_tendency :: real
  oversteer_tendency :: real
  traction_on_throttle :: real

record session_data =
  session_id :: string
  best_lap_time :: real

record session_setup_pair =
  pair_session :: session_data
  pair_setup :: car_setup
  pair_behavior :: "behavior_statistics option"
  pair_best_lap_time :: real

record parameter_range =
  parameter_name :: string
  min_value :: real
  max_value :: real
  optimal_value :: "real option"
  "values" :: "real list"
  lap_times :: "real list"

record setup_correlation =
  sc_parameter_name :: string
  sc_parameter_value :: real
  lap_time_correlation :: real
  balance_correlation :: real
  sc_confidence :: real
  sample_count :: nat
  suggested_direction :: string
  suggested_change :: real

record setup_correlator =
  sessions :: "session_setup_pair list"
  parameter_ranges :: "(string \<times> parameter_range) list"

definition init_correlator :: setup_correlator where
  "init_correlator = \<lparr>sessions = [], parameter_ranges = []\<rparr>"

text \<open>The body of the loop over the four corners in \<open>_extract_setup_parameters\<close>.\<close>

definition extract_corner :: "corner_setup \<Rightarrow> (string \<times> real) list \<Rightarrow> (string \<times> real) list" where
  "extract_corner corner params =
     (let prefix = position_prefix (position corner) in
      dict_set (prefix @ ''_pressure'') (pressure corner)
       (dict_set (prefix @ ''_fast_rebound'') (real_of_int (fast_rebound corner))
        (dict_set (prefix @ ''_slow_rebound'') (real_of_int (slow_rebound corner))
         (dict_set (prefix @ ''_fast_bump'') (real_of_int (fast_bump corner))
          (dict_set (prefix @ ''_slow_bump'') (real_of_int (slow_bump corner))
           (dict_set (prefix @ ''_spring'') (spring_rate corner) params))))))"

definition extract_suspension :: "suspension_setup \<Rightarrow> (string \<times> real) list \<Rightarrow> (string \<times> real) list" where
  "extract_suspension susp params =
     fold extract_corner [front_left susp, front_right susp, rear_left susp, rear_right susp]
      (dict_set ''rear_toe'' (rear_toe susp)
       (dict_set ''front_toe'' (front_toe susp)
        (dict_set ''rear_camber'' (rear_camber_avg susp)
         (dict_set ''front_camber'' (front_camber_avg susp)
          (dict_set ''rear_arb'' (real_of_int (rear_arb susp))
           (dict_set ''front_arb'' (real_of_int (front_arb susp))
            (dict_set ''rake'' (rake susp)
             (dict_set ''rear_ride_height'' (rear_ride_height susp)
              (dict_set ''front_ride_height'' (front_ride_height susp) params)))))))))"

definition extract_differential :: "differential_setup \<Rightarrow> (string \<times> real) list \<Rightarrow> (string \<times> real) list" where
  "extract_differential diff params =
     dict_set ''diff_preload'' (preload diff)
      (dict_set ''diff_coast_lock'' (coast_lock diff)
       (dict_set ''diff_power_lock'' (power_lock diff) params))"

definition extract_brakes :: "brake_setup \<Rightarrow> (string \<times> real) list \<Rightarrow> (string \<times> real) list" where
  "extract_brakes b params =
     dict_set ''brake_pressure'' (brake_pressure b) (dict_set ''brake_bias'' (bias b) params)"

definition extract_aero :: "aero_setup \<Rightarrow> (string \<times> real) list \<Rightarrow> (string \<times> real) list" where
  "extract_aero a params =
     dict_set ''aero_balance'' (estimated_balance a * 100)
      (dict_set ''rear_wing'' (real_of_int (rear_wing a))
       (dict_set ''front_wing'' (real_of_int (front_wing a)) params))"

definition on_section :: "'s option \<Rightarrow> ('s \<Rightarrow> 'p \<Rightarrow> 'p) \<Rightarrow> 'p \<Rightarrow> 'p" where
  "on_section sec f params = (case sec of None \<Rightarrow> params | Some s \<Rightarrow> f s params)"

definition extract_setup_parameters :: "car_setup \<Rightarrow> (string \<times> real) list" where
  "extract_setup_parameters s =
     on_section (aero s) extract_aero
      (on_section (brakes s) extract_brakes
       (on_section (differential s) extract_differential
        (on_section (suspension s) extract_suspension [])))"

text \<open>The body of the loop in \<open>_update_parameter_ranges\<close>, for one \<open>(name, value)\<close>.\<close>

definition update_range ::
  "real \<Rightarrow> string \<times> real \<Rightarrow> (string \<times> parameter_range) list \<Rightarrow> (string \<times> parameter_range) list" where
  "update_range lap_time nv ranges =
     (let name = fst nv; v = snd nv;
          range_obj = (case map_of ranges name of
                         None \<Rightarrow> \<lparr>parameter_name = name, min_value = v, max_value = v,
                                   optimal_value = None, values = [], lap_times = []\<rparr>
                       | Some r \<Rightarrow> r)
      in dict_set name
           (range_obj\<lparr>values := values range_obj @ [v],
                      lap_times := lap_times range_obj @ [lap_time],
                      min_value := min (min_value range_obj) v,
                      max_value := max (max_value range_obj) v\<rparr>) ranges)"

definition update_parameter_ranges ::
  "car_setup \<Rightarrow> real \<Rightarrow> (string \<times> parameter_range) list \<Rightarrow> (string \<times> parameter_range) list" where
  "update_parameter_ranges s lap_time ranges =
     fold (update_range lap_time) (extract_setup_parameters s) ranges"

text \<open>\<open>add_session\<close>; the behaviour statistics are the result of
  \<open>self.analyzer.analyze_session(session)\<close>, passed in.\<close>

definition add_session ::
  "session_data \<times> car_setup \<times> behavior_statistics option \<Rightarrow> setup_correlator \<Rightarrow> setup_correlator" where
  "add_session a c =
     (case a of (session, s, behavior) \<Rightarrow>
        \<lparr>sessions = sessions c @
            [\<lparr>pair_session = session, pair_setup = s, pair_behavior = behavior,
              pair_best_lap_time = best_lap_time session\<rparr>],
         parameter_ranges = update_parameter_ranges s (best_lap_time session) (parameter_ranges c)\<rparr>)"

text \<open>\<open>math.sqrt\<close> raises \<open>ValueError\<close> on a negative argument; \<open>min\<close> of an empty
  list raises \<open>ValueError\<close>; \<open>xs.index(v)\<close> is the first position of \<open>v\<close>.\<close>

definition py_sqrt :: "real \<Rightarrow> py_error + real" where
  "py_sqrt x = (if x < 0 then Inl ValueError else Inr (sqrt x))"

fun py_min :: "real list \<Rightarrow> py_error + real" where
  "py_min [] = Inl ValueError"
| "py_min (x # xs) = Inr (fold min xs x)"

fun py_index :: "real list \<Rightarrow> real \<Rightarrow> py_error + nat" where
  "py_index [] v = Inl ValueError"
| "py_index (x # xs) v =
     (if x = v then Inr 0
      else (case py_index xs v of Inl e \<Rightarrow> Inl e | Inr i \<Rightarrow> Inr (Suc i)))"

definition py_nth :: "'a list \<Rightarrow> nat \<Rightarrow> py_error + 'a" where
  "py_nth xs i = (if i < length xs then Inr (xs ! i) else Inl IndexError)"

text \<open>The denominator's radicand in the Pearson coefficient.\<close>

definition pearson_radicand :: "real list \<Rightarrow> real list \<Rightarrow> real" where
  "pearson_radicand xs ys =
     (let n = real (length xs) in
      (n * sum_list (map (\<lambda>x. x ^ 2) xs) - (sum_list xs) ^ 2)
      * (n * sum_list (map (\<lambda>y. y ^ 2) ys) - (sum_list ys) ^ 2))"

definition pearson_numerator :: "real list \<Rightarrow> real list \<Rightarrow> real" where
  "pearson_numerator xs ys =
     real (length xs) * sum_list (map (\<lambda>(x, y). x * y) (zip xs ys)) - sum_list xs * sum_list ys"

text \<open>
  \<open>_calculate_parameter_correlation\<close>: the result is the optional correlation together
  with the range, whose \<open>optimal_value\<close> the method writes.
\<close>

definition calculate_parameter_correlation ::
  "string \<Rightarrow> parameter_range \<Rightarrow> py_error + (setup_correlation option \<times> parameter_range)" where
  "calculate_parameter_correlation param_name param_range =
     (if length (values param_range) < 2 then Inr (None, param_range)
      else
        (case py_sqrt (pearson_radicand (values param_range) (lap_times param_range)) of
           Inl e \<Rightarrow> Inl e
         | Inr denominator \<Rightarrow>
            if denominator = 0 then Inr (None, param_range)
            else
              (let n = length (values param_range);
                   correlation = pearson_numerator (values param_range) (lap_times param_range)
                                 / denominator;
                   current_value = last (values param_range);
                   (direction, change) =
                      (if \<bar>correlation\<bar> < 0.3 then (''optimal'', 0)
                       else if correlation < 0 then
                         (''increase'', (max_value param_range - current_value) * 0.5)
                       else (''decrease'', (current_value - min_value param_range) * 0.5));
                   conf = min 100 (\<bar>correlation\<bar> * 100 * log 2 (real (n + 1)))
               in case py_min (lap_times param_range) of
                    Inl e \<Rightarrow> Inl e
                  | Inr m \<Rightarrow>
                     (case py_index (lap_times param_range) m of
                        Inl e \<Rightarrow> Inl e
                      | Inr best_idx \<Rightarrow>
                         (case py_nth (values param_range) best_idx of
                            Inl e \<Rightarrow> Inl e
                          | Inr best \<Rightarrow>
                             Inr (Some \<lparr>sc_parameter_name = param_name,
                                        sc_parameter_value = current_value,
                                        lap_time_correlation = correlation,
                                        balance_correlation = 0,
                                        sc_confidence = conf,
                                        sample_count = n,
                                        suggested_direction = direction,
                                        suggested_change = change\<rparr>,
                                  param_range\<lparr>optimal_value := Some best\<rparr>))))))"



text \<open>The correlator after \<open>add_session\<close> has been called for each element of a list,
  starting from a fresh \<open>SetupCorrelator()\<close>.\<close>

definition add_sessions ::
  "(session_data \<times> car_setup \<times> behavior_statistics option) list \<Rightarrow> setup_correlator" where
  "add_sessions xs = fold add_session xs init_correlator"

text \<open>The parameter \<open>name\<close> is among those extracted from the session's setup.\<close>

definition mentions ::
  "string \<Rightarrow> session_data \<times> car_setup \<times> behavior_statistics option \<Rightarrow> bool" where
  "mentions name a = (name \<in> fst ` set (extract_setup_parameters (fst (snd a))))"


definition range_ok :: "parameter_range \<Rightarrow> bool" where
  "range_ok r \<longleftrightarrow> values r \<noteq> [] \<and> min_value r = Min (set (values r))
      \<and> max_value r = Max (set (values r)) \<and> length (values r) = length (lap_times r)"

definition ranges_ok :: "(string \<times> parameter_range) list \<Rightarrow> bool" where
  "ranges_ok ranges \<longleftrightarrow> distinct (map fst ranges) \<and> (\<forall>e\<in>set ranges. range_ok (snd e))"

definition len_of :: "(string \<times> parameter_range) list \<Rightarrow> string \<Rightarrow> nat" where
  "len_of ranges n = (case map_of ranges n of None \<Rightarrow> 0 | Some r \<Rightarrow> length (values r))"

text \<open>The series value = i, outcome = 100 - i for i = 1..10.\<close>

definition descending_series :: parameter_range where
  "descending_series =
     \<lparr>parameter_name = ''front_wing'', min_value = 1, max_value = 10, optimal_value = None,
      values = [1, 2, 3, 4, 5, 6, 7, 8, 9, 10],
      lap_times = [99, 98, 97, 96, 95, 94, 93, 92, 91, 90]\<rparr>"

text \<open>Two sessions driven with a setup that has a brake section only: the same bias,
  another pressure.\<close>

definition brakes_only :: "real \<Rightarrow> real \<Rightarrow> car_setup" where
  "brakes_only b p =
     \<lparr>setup_name = ''base'', suspension = None, differential = None, aero = None,
      brakes = Some \<lparr>bias = b, brake_pressure = p\<rparr>, traction_control = 0\<rparr>"

definition session_one :: "session_data \<times> car_setup \<times> behavior_statistics option" where
  "session_one = (\<lparr>session_id = ''s1'', best_lap_time = 92\<rparr>, brakes_only 56 80, None)"

definition session_two :: "session_data \<times> car_setup \<times> behavior_statistics option" where
  "session_two = (\<lparr>session_id = ''s2'', best_lap_time = 91\<rparr>, brakes_only 56 90, None)"

section \<open>setup/entities/diagnostic.py\<close>

datatype severity = CRITICAL | WARNING | INFO | SUCCESS

datatype diagnostic_category =
  CAT_BALANCE | CAT_TRACTION | CAT_BRAKING | CAT_TIRE | CAT_SUSPENSION | CAT_AERO
  | CAT_DIFFERENTIAL

datatype diag_corner_phase =
  PHASE_BRAKING | PHASE_ENTRY | PHASE_MID | PHASE_EXIT | PHASE_ACCELERATION | PHASE_STRAIGHT

datatype problem_type =
  PT_UNDERSTEER_ENTRY | PT_UNDERSTEER_MID | PT_UNDERSTEER_EXIT
  | PT_OVERSTEER_ENTRY | PT_OVERSTEER_MID | PT_OVERSTEER_EXIT
  | PT_WHEELSPIN | PT_POWER_OVERSTEER
  | PT_FRONT_LOCKUP | PT_REAR_LOCKUP | PT_INSTABILITY_BRAKING
  | PT_BOTTOMING | PT_BOUNCING | PT_LACK_OF_GRIP | PT_TIRE_OVERHEATING | PT_TIRE_GRAINING

text \<open>
  The current and recommended values of a recommendation are \<open>Any\<close>: an int, or an
  f-string \<open>f"{x:.kf}suffix"\<close>, kept as the number of digits, the number and the suffix.
\<close>

datatype py_value = PyInt int | Formatted nat real string

record parameter_recommendation =
  pr_parameter :: string
  current_value :: py_value
  recommended_value :: py_value
  change_direction :: string
  change_amount :: string
  pr_confidence :: real
  explanation :: string

text \<open>A \<open>Diagnostic\<close>; its random \<open>id\<close> and the \<open>telemetry_evidence\<close> dictionary, which
  no rule writes, are left out.\<close>

record diagnostic =
  title :: string
  description :: string
  severity :: severity
  category :: diagnostic_category
  problem_type :: "problem_type option"
  corner_phase :: "diag_corner_phase option"
  recommendations :: "parameter_recommendation list"
  diag_confidence :: real
  diag_priority :: int
  affected_parameters :: "string list"

definition add_recommendation :: "parameter_recommendation \<Rightarrow> diagnostic \<Rightarrow> diagnostic" where
  "add_recommendation r d =
     d\<lparr>recommendations := recommendations d @ [r],
       affected_parameters :=
         (if pr_parameter r \<in> set (affected_parameters d) then affected_parameters d
          else affected_parameters d @ [pr_parameter r])\<rparr>"

section \<open>setup/rules/base.py\<close>

record rule_context =
  ctx_setup :: car_setup
  driver_feedback :: string
  track_id :: string
  conditions :: string

text \<open>The class attributes of a \<open>Rule\<close> and its \<open>get_recommendations\<close> method; a rule
  adds its \<open>evaluate\<close> method.\<close>

record rule_base =
  rule_id :: string
  rule_name :: string
  rule_category :: diagnostic_category
  rule_severity :: severity
  rule_problem_type :: "problem_type option"
  rule_corner_phase :: "diag_corner_phase option"
  get_recommendations :: "rule_context \<Rightarrow> parameter_recommendation list"

record rule = rule_base +
  evaluate :: "rule_context \<Rightarrow> diagnostic option"

definition create_diagnostic :: "'a rule_base_scheme \<Rightarrow> rule_context \<Rightarrow> diagnostic" where
  "create_diagnostic r context =
     fold add_recommendation (get_recommendations r context)
       \<lparr>title = rule_name r, description = [], severity = rule_severity r,
        category = rule_category r, problem_type = rule_problem_type r,
        corner_phase = rule_corner_phase r, recommendations = [],
        diag_confidence = 0.8, diag_priority = 1, affected_parameters = []\<rparr>"

definition severity_order :: "severity \<Rightarrow> nat" where
  "severity_order s = (case s of CRITICAL \<Rightarrow> 0 | WARNING \<Rightarrow> 1 | INFO \<Rightarrow> 2 | SUCCESS \<Rightarrow> 3)"

text \<open>\<open>RuleEngine.evaluate\<close>: the diagnostics of the rules that match, in registration
  order, then sorted (stably) by severity order and priority.\<close>

definition engine_evaluate :: "rule list \<Rightarrow> rule_context \<Rightarrow> diagnostic list" where
  "engine_evaluate rules context =
     sort_key (\<lambda>d. (severity_order (severity d), diag_priority d))
       (List.map_filter (\<lambda>r. evaluate r context) rules)"

section \<open>Feedback matching\<close>

text \<open>\<open>str.lower()\<close> on the ASCII letters, and \<open>kw in text\<close>.\<close>

definition lower_char :: "char \<Rightarrow> char" where
  "lower_char c =
     (let n = (of_char c :: nat) in if 65 \<le> n \<and> n \<le> 90 then char_of (n + 32) else c)"

definition lower :: "string \<Rightarrow> string" where
  "lower s = map lower_char s"

fun contains :: "string \<Rightarrow> string \<Rightarrow> bool" where
  "contains kw [] = (kw = [])"
| "contains kw (c # cs) = (prefix kw (c # cs) \<or> contains kw cs)"

definition any_keyword :: "string list \<Rightarrow> string \<Rightarrow> bool" where
  "any_keyword kws text = list_ex (\<lambda>kw. contains kw text) kws"

section \<open>setup/rules/brake\_rules.py: RearLockupRule\<close>

definition rear_lockup_keywords :: "string list" where
  "rear_lockup_keywords =
     [''rear lock'', ''rear lockup'', ''blocage arriere'',
      ''rear wheels lock'', ''arriere bloque'', ''spin braking'']"

definition rear_lockup_recommendations :: "rule_context \<Rightarrow> parameter_recommendation list" where
  "rear_lockup_recommendations context =
     (let s = ctx_setup context in
      (case brakes s of None \<Rightarrow> []
       | Some b \<Rightarrow>
          [\<lparr>pr_parameter = ''Brake Bias'',
            current_value = Formatted 1 (bias b) ''%'',
            recommended_value = Formatted 1 (min 65 (bias b + 4)) ''%'',
            change_direction = ''increase'', change_amount = ''+3-4%'',
            pr_confidence = 0.95,
            explanation = ''CRITICAL: More front bias prevents dangerous rear lockup''\<rparr>])
      @ (case differential s of None \<Rightarrow> []
         | Some d \<Rightarrow>
            [\<lparr>pr_parameter = ''Diff Coast Lock'',
              current_value = Formatted 0 (coast_lock d) ''%'',
              recommended_value = Formatted 0 (min 80 (coast_lock d + 15)) ''%'',
              change_direction = ''increase'', change_amount = ''+10-15%'',
              pr_confidence = 0.8,
              explanation = ''Higher coast lock prevents inside rear from locking''\<rparr>])
      @ (case suspension s of None \<Rightarrow> []
         | Some su \<Rightarrow>
            [\<lparr>pr_parameter = ''Rear ARB'',
              current_value = PyInt (rear_arb su),
              recommended_value = PyInt (max 0 (rear_arb su - 2)),
              change_direction = ''decrease'', change_amount = ''2-3 clicks'',
              pr_confidence = 0.7,
              explanation = ''Softer rear ARB gives more rear grip under braking''\<rparr>]))"

definition rear_lockup_base :: rule_base where
  "rear_lockup_base =
     \<lparr>rule_id = ''rear_lockup'', rule_name = ''Rear Wheel Lockup'',
      rule_category = CAT_BRAKING, rule_severity = CRITICAL,
      rule_problem_type = Some PT_REAR_LOCKUP, rule_corner_phase = Some PHASE_BRAKING,
      get_recommendations = rear_lockup_recommendations\<rparr>"

definition rear_lockup_evaluate :: "rule_context \<Rightarrow> diagnostic option" where
  "rear_lockup_evaluate context =
     (let feedback_lower = lower (driver_feedback context) in
      if any_keyword rear_lockup_keywords feedback_lower then
        Some ((create_diagnostic rear_lockup_base context)
                \<lparr>description :=
                   ''The rear wheels are locking under braking. '' @
                   ''This is DANGEROUS and causes spins. Must be fixed immediately.'',
                 severity := CRITICAL\<rparr>)
      else None)"

definition RearLockupRule :: rule where
  "RearLockupRule = rule_base.extend rear_lockup_base \<lparr>evaluate = rear_lockup_evaluate\<rparr>"

section \<open>setup/rules/traction\_rules.py: PowerOversteerRule\<close>

definition power_oversteer_keywords :: "string list" where
  "power_oversteer_keywords =
     [''power oversteer'', ''snap oversteer'', ''survirage acceleration'',
      ''rear snap'', ''arriere part a l'' @ [CHR 39] @ ''acceleration'']"

definition power_oversteer_recommendations :: "rule_context \<Rightarrow> parameter_recommendation list" where
  "power_oversteer_recommendations context =
     (let s = ctx_setup context in
      (case differential s of None \<Rightarrow> []
       | Some d \<Rightarrow>
          [\<lparr>pr_parameter = ''Diff Power Lock'',
            current_value = Formatted 0 (power_lock d) ''%'',
            recommended_value = Formatted 0 (max 15 (power_lock d - 20)) ''%'',
            change_direction = ''decrease'', change_amount = ''-15-20%'',
            pr_confidence = 0.95,
            explanation = ''CRITICAL: Lower power lock to reduce snap oversteer''\<rparr>])
      @ [\<lparr>pr_parameter = ''Traction Control'',
           current_value = PyInt (traction_control s),
           recommended_value = PyInt (min 10 (traction_control s + 3)),
           change_direction = ''increase'', change_amount = ''+2-3'',
           pr_confidence = 0.9,
           explanation = ''TC helps prevent sudden power application issues''\<rparr>]
      @ (case suspension s of None \<Rightarrow> []
         | Some su \<Rightarrow>
            [\<lparr>pr_parameter = ''Rear ARB'',
              current_value = PyInt (rear_arb su),
              recommended_value = PyInt (max 0 (rear_arb su - 3)),
              change_direction = ''decrease'', change_amount = ''3-4 clicks'',
              pr_confidence = 0.8,
              explanation = ''Softer rear ARB gives more progressive rear behavior''\<rparr>,
             \<lparr>pr_parameter = ''Rear Slow Bump'',
              current_value = PyInt (slow_bump (rear_left su)),
              recommended_value = PyInt (min 20 (slow_bump (rear_left su) + 2)),
              change_direction = ''increase'', change_amount = ''+2 clicks'',
              pr_confidence = 0.7,
              explanation = ''Stiffer bump controls squat under acceleration''\<rparr>])
      @ (case aero s of None \<Rightarrow> []
         | Some a \<Rightarrow>
            [\<lparr>pr_parameter = ''Rear Wing'',
              current_value = PyInt (rear_wing a),
              recommended_value = PyInt (min 40 (rear_wing a + 3)),
              change_direction = ''increase'', change_amount = ''+2-3'',
              pr_confidence = 0.75,
              explanation = ''More rear downforce improves stability''\<rparr>]))"

definition power_oversteer_base :: rule_base where
  "power_oversteer_base =
     \<lparr>rule_id = ''power_oversteer'', rule_name = ''Power Oversteer'',
      rule_category = CAT_TRACTION, rule_severity = WARNING,
      rule_problem_type = Some PT_POWER_OVERSTEER, rule_corner_phase = Some PHASE_EXIT,
      get_recommendations = power_oversteer_recommendations\<rparr>"

definition power_oversteer_evaluate :: "rule_context \<Rightarrow> diagnostic option" where
  "power_oversteer_evaluate context =
     (let feedback_lower = lower (driver_feedback context) in
      if any_keyword power_oversteer_keywords feedback_lower then
        Some ((create_diagnostic power_oversteer_base context)
                \<lparr>description :=
                   ''The rear snaps out suddenly when applying throttle. '' @
                   ''This is dangerous and needs to be addressed for car control.'',
                 severity := CRITICAL\<rparr>)
      else None)"

definition PowerOversteerRule :: rule where
  "PowerOversteerRule =
     rule_base.extend power_oversteer_base \<lparr>evaluate = power_oversteer_evaluate\<rparr>"

text \<open>Two feedback texts, in mixed case.\<close>

definition lockup_context :: rule_context where
  "lockup_context =
     \<lparr>ctx_setup = brakes_only 56 80, driver_feedback = ''Rear Lockup at T1'',
      track_id = ''spa'', conditions = ''dry''\<rparr>"

definition snap_context :: rule_context where
  "snap_context =
     \<lparr>ctx_setup = brakes_only 56 80, driver_feedback = ''SNAP OVERSTEER on exit'',
      track_id = ''spa'', conditions = ''dry''\<rparr>"

section \<open>analysis/setup\_analyzer.py: data\<close>

datatype corner_phase = STRAIGHT | BRAKING | ENTRY | MID | EXIT | ACCELERATION

datatype problem =
  UNDERSTEER_ENTRY | UNDERSTEER_MID | UNDERSTEER_EXIT
  | OVERSTEER_ENTRY | OVERSTEER_MID | OVERSTEER_EXIT
  | WHEELSPIN | WHEEL_LOCK | INSTABILITY_HIGH_SPEED
  | TIRE_OVERHEAT_FRONT | TIRE_OVERHEAT_REAR | TIRE_COLD_FRONT | TIRE_COLD_REAR
  | BRAKE_OVERHEAT_FRONT | BRAKE_OVERHEAT_REAR
  | EXCESSIVE_ROLL | BOTTOMING | POOR_TRACTION

text \<open>\<open>problem.value\<close>\<close>

fun problem_value :: "problem \<Rightarrow> string" where
  "problem_value UNDERSTEER_ENTRY = ''understeer_entry''"
| "problem_value UNDERSTEER_MID = ''understeer_mid''"
| "problem_value UNDERSTEER_EXIT = ''understeer_exit''"
| "problem_value OVERSTEER_ENTRY = ''oversteer_entry''"
| "problem_value OVERSTEER_MID = ''oversteer_mid''"
| "problem_value OVERSTEER_EXIT = ''oversteer_exit''"
| "problem_value WHEELSPIN = ''wheelspin''"
| "problem_value WHEEL_LOCK = ''wheel_lock''"
| "problem_value INSTABILITY_HIGH_SPEED = ''instability_high_speed''"
| "problem_value TIRE_OVERHEAT_FRONT = ''tire_overheat_front''"
| "problem_value TIRE_OVERHEAT_REAR = ''tire_overheat_rear''"
| "problem_value TIRE_COLD_FRONT = ''tire_cold_front''"
| "problem_value TIRE_COLD_REAR = ''tire_cold_rear''"
| "problem_value BRAKE_OVERHEAT_FRONT = ''brake_overheat_front''"
| "problem_value BRAKE_OVERHEAT_REAR = ''brake_overheat_rear''"
| "problem_value EXCESSIVE_ROLL = ''excessive_roll''"
| "problem_value BOTTOMING = ''bottoming''"
| "problem_value POOR_TRACTION = ''poor_traction''"

record setup_parameter =
  sp_name :: string
  display_name :: string
  unit :: string
  sp_category :: string
  effects :: "(problem \<times> real) list"
  interactions :: "(string \<times> real) list"

text \<open>A four-element list \<open>[FL, FR, RL, RR]\<close>.\<close>

type_synonym quad = "real \<times> real \<times> real \<times> real"



text \<open>A \<open>Sample\<close>, with the fields that the behaviour analysis and the problem detection
  read.\<close>

record sample =
  phase :: corner_phase
  speed :: real
  steering :: real
  tire_temp :: quad
  grip :: quad
  slip_ratio :: quad
  brake_temp :: quad
  s_ride_height :: quad

record phase_behavior =
  understeer :: real
  oversteer :: real
  neutral :: real

text \<open>A \<open>LapAnalysis\<close>, with the behaviour, the problems (a dictionary in insertion
  order) and the traction and stability statistics; the tyre, brake and suspension
  summaries, which no recommendation reads, are left out.\<close>

record lap_analysis =
  lap_number :: int
  lap_time :: real
  la_sample_count :: nat
  behavior :: "(corner_phase \<times> phase_behavior) list"
  problems :: "(problem \<times> real) list"
  wheelspin_pct :: real
  lockup_pct :: real
  avg_rear_slip :: real
  stability_score :: real
  high_speed_corrections :: real

datatype suggested_value = Qualitative string | Change real real

text \<open>\<open>f"Corrige {name} ({severity*100:.0f}%)"\<close>, kept as the name and the number.\<close>

datatype reason_text = Corrige string real

record recommendation =
  parameter :: string
  direction :: string
  rec_value :: suggested_value
  reason :: reason_text
  priority :: int
  addresses :: "problem list"
  side_effects :: "string list"
  confidence :: real


record setup_analyzer =
  current_lap_samples :: "sample list"
  current_lap :: int
  lap_analyses :: "lap_analysis list"
  current_setup :: "(string \<times> real) list"
  vehicle_category :: string
  parameters :: "(string \<times> setup_parameter) list"

text \<open>\<open>_init_parameters\<close>\<close>

definition init_parameters :: "(string \<times> setup_parameter) list" where
  "init_parameters =
     [
      (''front_spring'', \<lparr>sp_name = ''front_spring'', display_name = ''Ressort Avant'', unit = ''N/mm'',
          sp_category = ''suspension'',
          effects = [(UNDERSTEER_ENTRY, - 0.25), (UNDERSTEER_MID, - 0.15),
                     (OVERSTEER_EXIT, 0.15), (TIRE_OVERHEAT_FRONT, 0.1),
                     (INSTABILITY_HIGH_SPEED, - 0.1)],
          interactions = []\<rparr>),
      (''rear_spring'', \<lparr>sp_name = ''rear_spring'', display_name = ''Ressort Arriere'', unit = ''N/mm'',
          sp_category = ''suspension'',
          effects = [(UNDERSTEER_ENTRY, 0.15), (OVERSTEER_EXIT, - 0.3), (POOR_TRACTION, 0.15),
                     (TIRE_OVERHEAT_REAR, 0.1)],
          interactions = []\<rparr>),
      (''front_slow_bump'', \<lparr>sp_name = ''front_slow_bump'', display_name = ''Bump Lent AV'', unit = ''clicks'',
          sp_category = ''dampers'',
          effects = [(UNDERSTEER_ENTRY, - 0.2), (UNDERSTEER_MID, - 0.1),
                     (INSTABILITY_HIGH_SPEED, - 0.1)],
          interactions = []\<rparr>),
      (''front_fast_bump'', \<lparr>sp_name = ''front_fast_bump'', display_name = ''Bump Rapide AV'', unit = ''clicks'',
          sp_category = ''dampers'',
          effects = [(BOTTOMING, - 0.2)],
          interactions = []\<rparr>),
      (''rear_slow_bump'', \<lparr>sp_name = ''rear_slow_bump'', display_name = ''Bump Lent AR'', unit = ''clicks'',
          sp_category = ''dampers'',
          effects = [(OVERSTEER_EXIT, - 0.15), (POOR_TRACTION, 0.12), (WHEELSPIN, 0.1)],
          interactions = []\<rparr>),
      (''rear_fast_bump'', \<lparr>sp_name = ''rear_fast_bump'', display_name = ''Bump Rapide AR'', unit = ''clicks'',
          sp_category = ''dampers'',
          effects = [(BOTTOMING, - 0.15), (POOR_TRACTION, 0.08)],
          interactions = []\<rparr>),
      (''front_slow_rebound'', \<lparr>sp_name = ''front_slow_rebound'', display_name = ''Detente Lente AV'', unit = ''clicks'',
          sp_category = ''dampers'',
          effects = [(UNDERSTEER_ENTRY, 0.18), (INSTABILITY_HIGH_SPEED, - 0.15)],
          interactions = []\<rparr>),
      (''front_fast_rebound'', \<lparr>sp_name = ''front_fast_rebound'', display_name = ''Detente Rapide AV'', unit = ''clicks'',
          sp_category = ''dampers'',
          effects = [(INSTABILITY_HIGH_SPEED, - 0.1)],
          interactions = []\<rparr>),
      (''rear_slow_rebound'', \<lparr>sp_name = ''rear_slow_rebound'', display_name = ''Detente Lente AR'', unit = ''clicks'',
          sp_category = ''dampers'',
          effects = [(OVERSTEER_ENTRY, - 0.2), (OVERSTEER_EXIT, 0.12), (POOR_TRACTION, - 0.08)],
          interactions = []\<rparr>),
      (''rear_fast_rebound'', \<lparr>sp_name = ''rear_fast_rebound'', display_name = ''Detente Rapide AR'', unit = ''clicks'',
          sp_category = ''dampers'',
          effects = [(INSTABILITY_HIGH_SPEED, - 0.08)],
          interactions = []\<rparr>),
      (''front_arb'', \<lparr>sp_name = ''front_arb'', display_name = ''Barre Anti-Roulis AV'', unit = ''N/mm'',
          sp_category = ''suspension'',
          effects = [(UNDERSTEER_ENTRY, - 0.3), (UNDERSTEER_MID, - 0.35), (OVERSTEER_EXIT, 0.2),
                     (EXCESSIVE_ROLL, - 0.3), (TIRE_OVERHEAT_FRONT, 0.08)],
          interactions = []\<rparr>),
      (''rear_arb'', \<lparr>sp_name = ''rear_arb'', display_name = ''Barre Anti-Roulis AR'', unit = ''N/mm'',
          sp_category = ''suspension'',
          effects = [(UNDERSTEER_ENTRY, 0.2), (UNDERSTEER_MID, 0.25), (OVERSTEER_EXIT, - 0.35),
                     (OVERSTEER_ENTRY, - 0.15), (EXCESSIVE_ROLL, - 0.25),
                     (POOR_TRACTION, 0.12)],
          interactions = []\<rparr>),
      (''front_camber'', \<lparr>sp_name = ''front_camber'', display_name = ''Carrossage AV'', unit = ''deg'',
          sp_category = ''geometry'',
          effects = [(UNDERSTEER_MID, - 0.25), (TIRE_OVERHEAT_FRONT, 0.15)],
          interactions = []\<rparr>),
      (''rear_camber'', \<lparr>sp_name = ''rear_camber'', display_name = ''Carrossage AR'', unit = ''deg'',
          sp_category = ''geometry'',
          effects = [(OVERSTEER_MID, - 0.2), (TIRE_OVERHEAT_REAR, 0.15), (POOR_TRACTION, 0.08)],
          interactions = []\<rparr>),
      (''front_toe'', \<lparr>sp_name = ''front_toe'', display_name = ''Pincement AV'', unit = ''deg'',
          sp_category = ''geometry'',
          effects = [(UNDERSTEER_ENTRY, 0.15), (INSTABILITY_HIGH_SPEED, - 0.2),
                     (TIRE_OVERHEAT_FRONT, 0.1)],
          interactions = []\<rparr>),
      (''rear_toe'', \<lparr>sp_name = ''rear_toe'', display_name = ''Pincement AR'', unit = ''deg'',
          sp_category = ''geometry'',
          effects = [(OVERSTEER_EXIT, - 0.25), (INSTABILITY_HIGH_SPEED, - 0.3),
                     (POOR_TRACTION, - 0.1), (TIRE_OVERHEAT_REAR, 0.1)],
          interactions = []\<rparr>),
      (''front_wing'', \<lparr>sp_name = ''front_wing'', display_name = ''Aileron AV'', unit = ''deg'',
          sp_category = ''aero'',
          effects = [(UNDERSTEER_MID, - 0.2), (UNDERSTEER_ENTRY, - 0.15)],
          interactions = []\<rparr>),
      (''rear_wing'', \<lparr>sp_name = ''rear_wing'', display_name = ''Aileron AR'', unit = ''deg'',
          sp_category = ''aero'',
          effects = [(OVERSTEER_MID, - 0.3), (OVERSTEER_EXIT, - 0.2),
                     (INSTABILITY_HIGH_SPEED, - 0.35), (POOR_TRACTION, - 0.2)],
          interactions = []\<rparr>),
      (''front_ride_height'', \<lparr>sp_name = ''front_ride_height'', display_name = ''Hauteur Caisse AV'', unit = ''mm'',
          sp_category = ''aero'',
          effects = [(UNDERSTEER_MID, 0.1), (BOTTOMING, - 0.3)],
          interactions = []\<rparr>),
      (''rear_ride_height'', \<lparr>sp_name = ''rear_ride_height'', display_name = ''Hauteur Caisse AR'', unit = ''mm'',
          sp_category = ''aero'',
          effects = [(OVERSTEER_MID, 0.1), (BOTTOMING, - 0.25), (POOR_TRACTION, 0.08)],
          interactions = []\<rparr>),
      (''diff_power'', \<lparr>sp_name = ''diff_power'', display_name = ''Diff Puissance'', unit = ''%'',
          sp_category = ''differential'',
          effects = [(POOR_TRACTION, - 0.25), (WHEELSPIN, - 0.15), (OVERSTEER_EXIT, 0.3)],
          interactions = []\<rparr>),
      (''diff_coast'', \<lparr>sp_name = ''diff_coast'', display_name = ''Diff Deceleration'', unit = ''%'',
          sp_category = ''differential'',
          effects = [(OVERSTEER_ENTRY, 0.25), (INSTABILITY_HIGH_SPEED, 0.1)],
          interactions = []\<rparr>),
      (''diff_preload'', \<lparr>sp_name = ''diff_preload'', display_name = ''Precharge Diff'', unit = ''Nm'',
          sp_category = ''differential'',
          effects = [(POOR_TRACTION, - 0.1), (OVERSTEER_EXIT, 0.08)],
          interactions = []\<rparr>),
      (''brake_bias'', \<lparr>sp_name = ''brake_bias'', display_name = ''Repartition Freinage'', unit = ''%'',
          sp_category = ''brakes'',
          effects = [(OVERSTEER_ENTRY, - 0.35), (UNDERSTEER_ENTRY, 0.25), (WHEEL_LOCK, - 0.2),
                     (BRAKE_OVERHEAT_FRONT, 0.15), (BRAKE_OVERHEAT_REAR, - 0.15)],
          interactions = []\<rparr>),
      (''front_pressure'', \<lparr>sp_name = ''front_pressure'', display_name = ''Pression AV'', unit = ''kPa'',
          sp_category = ''tires'',
          effects = [(UNDERSTEER_MID, 0.12), (TIRE_OVERHEAT_FRONT, - 0.15), (TIRE_COLD_FRONT, 0.2)],
          interactions = []\<rparr>),
      (''rear_pressure'', \<lparr>sp_name = ''rear_pressure'', display_name = ''Pression AR'', unit = ''kPa'',
          sp_category = ''tires'',
          effects = [(OVERSTEER_MID, 0.08), (POOR_TRACTION, 0.1), (TIRE_OVERHEAT_REAR, - 0.12),
                     (TIRE_COLD_REAR, 0.18)],
          interactions = []\<rparr>)
     ]"



section \<open>analysis/setup\_analyzer.py: behaviour and problems of a lap\<close>

















text \<open>\<open>problems[k] = v\<close> guarded by a condition: each key is written at most once, so the
  dictionary is the concatenation of the entries in the order of the code.\<close>

definition entry_if :: "bool \<Rightarrow> problem \<Rightarrow> real \<Rightarrow> (problem \<times> real) list" where
  "entry_if c k v = (if c then [(k, v)] else [])"



section \<open>analysis/setup\_analyzer.py: recommendations\<close>

text \<open>\<open>param.effects.get(problem, 0)\<close>\<close>

definition effect_on :: "setup_parameter \<Rightarrow> problem \<Rightarrow> real" where
  "effect_on p pr = (case map_of (effects p) pr of None \<Rightarrow> 0 | Some e \<Rightarrow> e)"

text \<open>The test of the conflict penalty for one effect of the parameter.\<close>

definition conflicts :: "(problem \<times> real) list \<Rightarrow> problem \<times> real \<Rightarrow> bool" where
  "conflicts applied_effects e =
     (case map_of applied_effects (fst e) of
        None \<Rightarrow> False
      | Some a \<Rightarrow> (snd e > 0 \<and> a < 0) \<or> (snd e < 0 \<and> a > 0))"

text \<open>The inner loop of \<open>_find_solutions\<close> over \<open>param.effects.items()\<close>.\<close>

fun penalise :: "(problem \<times> real) list \<Rightarrow> (problem \<times> real) list \<Rightarrow> real \<Rightarrow> real" where
  "penalise applied_effects [] score = score"
| "penalise applied_effects (e # es) score =
     penalise applied_effects es (if conflicts applied_effects e then score * 0.5 else score)"

text \<open>The body of the outer loop of \<open>_find_solutions\<close> for one parameter.\<close>

definition candidate ::
  "problem \<Rightarrow> (problem \<times> real) list \<Rightarrow> string \<times> setup_parameter
   \<Rightarrow> (string \<times> real \<times> string) option" where
  "candidate pr applied_effects np =
     (let effect = effect_on (snd np) pr in
      if effect = 0 then None
      else
        (let dir = (if effect < 0 then ''increase'' else ''decrease'');
             score = penalise applied_effects (effects (snd np)) \<bar>effect\<bar>
         in if score > 0.1 then Some (fst np, score, dir) else None))"

definition find_solutions ::
  "(string \<times> setup_parameter) list \<Rightarrow> problem \<Rightarrow> (problem \<times> real) list
   \<Rightarrow> (string \<times> real \<times> string) list" where
  "find_solutions params pr applied_effects =
     sorted_desc (\<lambda>x. fst (snd x)) (List.map_filter (candidate pr applied_effects) params)"

definition check_side_effects ::
  "setup_parameter \<Rightarrow> string \<Rightarrow> lap_analysis \<Rightarrow> string list" where
  "check_side_effects param dir analysis =
     (let mult = (if dir = ''increase'' then 1 else - 1) in
      map (\<lambda>e. ''Peut aggraver: '' @ problem_value (fst e))
        (filter (\<lambda>e. snd e * mult > 0.1
                    \<and> (case map_of (problems analysis) (fst e) of
                         None \<Rightarrow> False | Some s \<Rightarrow> s > 0.3))
           (effects param)))"

definition adjustments :: "(string \<times> real) list" where
  "adjustments =
     [(''front_spring'', 5000), (''rear_spring'', 5000), (''front_arb'', 5000),
      (''rear_arb'', 5000), (''front_pressure'', 3), (''rear_pressure'', 3),
      (''brake_bias'', 1), (''front_camber'', 0.2), (''rear_camber'', 0.2),
      (''front_toe'', 0.02), (''rear_toe'', 0.02), (''front_wing'', 1), (''rear_wing'', 1),
      (''diff_power'', 5), (''diff_coast'', 5)]"

definition suggest_value :: "string \<Rightarrow> string \<Rightarrow> real option \<Rightarrow> suggested_value" where
  "suggest_value param_name dir current =
     (case current of
        None \<Rightarrow>
          (if dir = ''increase'' then Qualitative ''+1-2 clicks/points''
           else Qualitative ''-1-2 clicks/points'')
      | Some c \<Rightarrow>
          (let adj = (case map_of adjustments param_name of None \<Rightarrow> 1 | Some a \<Rightarrow> a);
               adj' = (if dir = ''decrease'' then - adj else adj)
           in Change c (c + adj')))"

fun problem_name :: "problem \<Rightarrow> string" where
  "problem_name UNDERSTEER_ENTRY = ''sous-virage en entree''"
| "problem_name UNDERSTEER_MID = ''sous-virage mi-virage''"
| "problem_name UNDERSTEER_EXIT = ''sous-virage en sortie''"
| "problem_name OVERSTEER_ENTRY = ''survirage en entree''"
| "problem_name OVERSTEER_MID = ''survirage mi-virage''"
| "problem_name OVERSTEER_EXIT = ''survirage en sortie''"
| "problem_name WHEELSPIN = ''patinage''"
| "problem_name WHEEL_LOCK = ''blocage roues''"
| "problem_name INSTABILITY_HIGH_SPEED = ''instabilite haute vitesse''"
| "problem_name TIRE_OVERHEAT_FRONT = ''surchauffe pneus avant''"
| "problem_name TIRE_OVERHEAT_REAR = ''surchauffe pneus arriere''"
| "problem_name TIRE_COLD_FRONT = ''pneus avant froids''"
| "problem_name TIRE_COLD_REAR = ''pneus arriere froids''"
| "problem_name BRAKE_OVERHEAT_FRONT = ''surchauffe freins avant''"
| "problem_name BRAKE_OVERHEAT_REAR = ''surchauffe freins arriere''"
| "problem_name EXCESSIVE_ROLL = ''roulis excessif''"
| "problem_name BOTTOMING = ''talonnage''"
| "problem_name POOR_TRACTION = ''manque de traction''"

definition format_reason :: "problem \<Rightarrow> real \<Rightarrow> reason_text" where
  "format_reason pr sev = Corrige (problem_name pr) (sev * 100)"

text \<open>The recommendation built in the inner loop of \<open>generate_recommendations\<close>.\<close>

definition make_recommendation ::
  "setup_analyzer \<Rightarrow> lap_analysis \<Rightarrow> problem \<Rightarrow> real \<Rightarrow> setup_parameter
   \<Rightarrow> string \<times> real \<times> string \<Rightarrow> recommendation" where
  "make_recommendation st analysis pr sev param sol =
     (case sol of (param_name, score, dir) \<Rightarrow>
        \<lparr>parameter = display_name param, direction = dir,
         rec_value = suggest_value param_name dir (map_of (current_setup st) param_name),
         reason = format_reason pr sev,
         priority = py_int (sev * 10),
         addresses = [pr],
         side_effects = check_side_effects param dir analysis,
         confidence = min 1 (score * sev)\<rparr>)"

text \<open>\<open>applied_effects[p] = applied_effects.get(p, 0) + eff_value * mult\<close> for each effect
  of the parameter.\<close>

definition track_effect :: "real \<Rightarrow> problem \<times> real \<Rightarrow> (problem \<times> real) list \<Rightarrow> (problem \<times> real) list" where
  "track_effect mult e applied_effects =
     dict_set (fst e)
       ((case map_of applied_effects (fst e) of None \<Rightarrow> 0 | Some a \<Rightarrow> a) + snd e * mult)
       applied_effects"

definition track_effects ::
  "setup_parameter \<Rightarrow> string \<Rightarrow> (problem \<times> real) list \<Rightarrow> (problem \<times> real) list" where
  "track_effects param dir applied_effects =
     fold (track_effect (if dir = ''increase'' then 1 else - 1)) (effects param) applied_effects"

text \<open>The inner loop over \<open>solutions[:2]\<close>: the recommendations appended and the
  accumulator after it.\<close>

fun solutions_loop ::
  "setup_analyzer \<Rightarrow> lap_analysis \<Rightarrow> problem \<Rightarrow> real \<Rightarrow> (string \<times> real \<times> string) list
   \<Rightarrow> (problem \<times> real) list \<Rightarrow> recommendation list \<times> (problem \<times> real) list" where
  "solutions_loop st analysis pr sev [] applied_effects = ([], applied_effects)"
| "solutions_loop st analysis pr sev (sol # sols) applied_effects =
     (case map_of (parameters st) (fst sol) of
        None \<Rightarrow> solutions_loop st analysis pr sev sols applied_effects
      | Some param \<Rightarrow>
          (let r = make_recommendation st analysis pr sev param sol;
               rest = solutions_loop st analysis pr sev sols
                        (track_effects param (snd (snd sol)) applied_effects)
           in (r # fst rest, snd rest)))"

text \<open>The outer loop over \<open>sorted_problems[:5]\<close>.\<close>

fun problems_loop ::
  "setup_analyzer \<Rightarrow> lap_analysis \<Rightarrow> (problem \<times> real) list \<Rightarrow> (problem \<times> real) list
   \<Rightarrow> recommendation list" where
  "problems_loop st analysis [] applied_effects = []"
| "problems_loop st analysis (ps # rest) applied_effects =
     (if snd ps < 0.2 then problems_loop st analysis rest applied_effects
      else
        (let solutions = find_solutions (parameters st) (fst ps) applied_effects;
             inner = solutions_loop st analysis (fst ps) (snd ps) (take 2 solutions)
                       applied_effects
         in fst inner @ problems_loop st analysis rest (snd inner)))"

text \<open>The list \<open>recommendations\<close> before it is sorted and de-duplicated.\<close>

definition collect_recommendations :: "setup_analyzer \<Rightarrow> recommendation list" where
  "collect_recommendations st =
     (if lap_analyses st = [] then []
      else
        (let analysis = last (lap_analyses st) in
         problems_loop st analysis (take 5 (sorted_desc snd (problems analysis))) []))"

fun unique_recs :: "string list \<Rightarrow> recommendation list \<Rightarrow> recommendation list" where
  "unique_recs seen [] = []"
| "unique_recs seen (r # rs) =
     (if parameter r \<in> set seen then unique_recs seen rs
      else r # unique_recs (parameter r # seen) rs)"

definition generate_recommendations :: "setup_analyzer \<Rightarrow> recommendation list" where
  "generate_recommendations st =
     take 5 (unique_recs []
       (sorted_desc (\<lambda>r. real_of_int (priority r)) (collect_recommendations st)))"

section \<open>Scenarios for the recommendation engine\<close>






text \<open>An analyzer whose last lap analysis has the given problems.\<close>

definition analyzer_with :: "(problem \<times> real) list \<Rightarrow> setup_analyzer" where
  "analyzer_with ps = \<lparr>current_lap_samples = [], current_lap = 1,
     lap_analyses = [\<lparr>lap_number = 1, lap_time = 0, la_sample_count = 150, behavior = [],
        problems = ps, wheelspin_pct = 0, lockup_pct = 0, avg_rear_slip = 0,
        stability_score = 1, high_speed_corrections = 0\<rparr>],
     current_setup = [], vehicle_category = ''GT3'', parameters = init_parameters\<rparr>"

definition oversteer_then_brakes :: setup_analyzer where
  "oversteer_then_brakes = analyzer_with [(OVERSTEER_ENTRY, 0.8), (BRAKE_OVERHEAT_FRONT, 0.5)]"



section \<open>Vehicle category: the boundaries are strict\<close>

text \<open>
  Claim C7.  For a sample with positive speed the category becomes the top tier (LMH)
  exactly when the combined front and rear downforce is strictly greater than 15000, and
  the mid tier (LMP2) exactly when it is strictly greater than 8000 but not greater than
  15000; in particular a combined downforce of exactly 15000 gives the mid tier.
\<close>

theorem detect_vehicle_category_strict:
  assumes "speed_kmh d > 0"
  shows "(detect_vehicle_category c d = ''LMH''
            \<longleftrightarrow> td_front_downforce d + td_rear_downforce d > 15000)
       \<and> (detect_vehicle_category c d = ''LMP2''
            \<longleftrightarrow> td_front_downforce d + td_rear_downforce d > 8000
              \<and> \<not> td_front_downforce d + td_rear_downforce d > 15000)
       \<and> (td_front_downforce d + td_rear_downforce d = 15000
            \<longrightarrow> detect_vehicle_category c d = ''LMP2'')"
  using assms by (simp add: detect_vehicle_category_def)

theorem detect_vehicle_category_strict_witness:
  "detect_vehicle_category ''GT3''
     \<lparr>speed_kmh = 120, td_throttle = 1, td_brake = 0, td_steering = 0,
      td_front_downforce = 7000, td_rear_downforce = 8000\<rparr> = ''LMP2''"
  using detect_vehicle_category_strict
    [of "\<lparr>speed_kmh = 120, td_throttle = 1, td_brake = 0, td_steering = 0,
          td_front_downforce = 7000, td_rear_downforce = 8000\<rparr>" "''GT3''"]
  by simp

section \<open>Traction loss: the sample count threshold\<close>

lemma traction_loop_counts:
  "traction_loop ps st =
     (fst st + length (filter qualifies ps),
      fold (\<lambda>p m. max m (point_severity p)) (filter qualifies ps) (snd st))"
  by (induction ps arbitrary: st)
     (simp_all add: traction_step_def qualifies_def point_severity_def Let_def)

lemma detect_traction_loss_counts:
  "detect_traction_loss points =
     (length (filter qualifies points) > 3,
      fold (\<lambda>p m. max m (point_severity p)) (filter qualifies points) 0)"
  by (cases points) (simp_all add: detect_traction_loss_def traction_loop_counts Let_def)

text \<open>
  Claim C8.  The severity is the maximum of \<open>min(100, slip * 200)\<close> over the
  qualifying samples (throttle above 50, rear slip-ratio magnitude above 0.15), but the
  corner is flagged only when more than three samples qualify: a corner with exactly
  three qualifying samples is not flagged.
\<close>

theorem detect_traction_loss_three_samples:
  "detect_traction_loss
     (replicate 3 \<lparr>tp_throttle = 80, tp_slip_ratio_rl = 0.3, tp_slip_ratio_rr = 0.2\<rparr>)
   = (False, 60)"
  by (simp add: detect_traction_loss_def traction_step_def
      TRACTION_SLIP_RATIO_THRESHOLD_def numeral_3_eq_3)

section \<open>Pearson coefficient of a perfectly descending series\<close>

lemma sqrt_825: "sqrt 680625 = 825"
proof -
  have "sqrt ((825::real) ^ 2) = 825" by (rule real_sqrt_unique) simp_all
  then show ?thesis by simp
qed

lemma log2_11: "1 \<le> log 2 (11::real)"
proof -
  have "log 2 2 \<le> log 2 (11::real)" by (subst log_le_cancel_iff) simp_all
  then show ?thesis by simp
qed

lemma rad: "pearson_radicand (values descending_series) (lap_times descending_series) = 680625"
  by (simp add: pearson_radicand_def descending_series_def)

lemma num: "pearson_numerator (values descending_series) (lap_times descending_series) = - 825"
  by (simp add: pearson_numerator_def descending_series_def)

lemma mn: "py_min (lap_times descending_series) = Inr 90"
  by (simp add: descending_series_def)

lemma idx: "py_index (lap_times descending_series) 90 = Inr 9"
  by (simp add: descending_series_def)

lemma nth9: "py_nth (values descending_series) 9 = Inr 10"
  by (simp add: descending_series_def py_nth_def)

lemma lens: "length (values descending_series) = 10" "last (values descending_series) = 10"
  "max_value descending_series = 10"
  by (simp_all add: descending_series_def)

text \<open>
  Claim C5.  For the series value = i, outcome = 100 - i (i = 1..10) the correlator's
  Pearson coefficient is exactly -1 and the confidence
  \<open>min(100, |r| * 100 * log2(n + 1))\<close> is exactly 100.
\<close>

theorem pearson_descending_series:
  "calculate_parameter_correlation ''front_wing'' descending_series =
     Inr (Some \<lparr>sc_parameter_name = ''front_wing'', sc_parameter_value = 10,
                lap_time_correlation = - 1, balance_correlation = 0,
                sc_confidence = 100, sample_count = 10,
                suggested_direction = ''increase'', suggested_change = 0\<rparr>,
          descending_series\<lparr>optimal_value := Some 10\<rparr>)"
proof -
  have c: "min 100 (100 * log 2 (11::real)) = 100"
    using log2_11 by simp
  show ?thesis
    unfolding calculate_parameter_correlation_def
    by (simp add: rad num mn idx nth9 lens py_sqrt_def sqrt_825 c)
qed

section \<open>The parameter ranges after any sequence of sessions\<close>

lemma set_dict_set: "e \<in> set (dict_set k v d) \<Longrightarrow> e = (k, v) \<or> e \<in> set d"
  by (induction d) (auto split: if_splits)

lemma fst_set_dict_set: "fst ` set (dict_set k v d) = insert k (fst ` set d)"
  by (induction d) auto

lemma distinct_dict_set: "distinct (map fst d) \<Longrightarrow> distinct (map fst (dict_set k v d))"
proof (induction d)
  case Nil then show ?case by simp
next
  case (Cons e d)
  then show ?case using fst_set_dict_set[of k v d] by (auto simp: image_iff)
qed

lemma map_of_dict_set: "map_of (dict_set k v d) = (map_of d)(k \<mapsto> v)"
  by (induction d) (auto simp: fun_eq_iff)

lemma distinct_extract_corner:
  "distinct (map fst ps) \<Longrightarrow> distinct (map fst (extract_corner c ps))"
  by (simp add: extract_corner_def Let_def distinct_dict_set)

lemma distinct_extract: "distinct (map fst (extract_setup_parameters s))"
  by (simp add: extract_setup_parameters_def on_section_def extract_aero_def extract_brakes_def
      extract_differential_def extract_suspension_def distinct_dict_set distinct_extract_corner
      split: option.split)

lemma range_ok_extend:
  assumes "values r = [] \<and> lap_times r = [] \<and> min_value r = v \<and> max_value r = v \<or> range_ok r"
  shows "range_ok (r\<lparr>values := values r @ [v], lap_times := lap_times r @ [t],
                     min_value := min (min_value r) v, max_value := max (max_value r) v\<rparr>)"
  using assms
proof
  assume "values r = [] \<and> lap_times r = [] \<and> min_value r = v \<and> max_value r = v"
  then show ?thesis by (simp add: range_ok_def)
next
  assume ok: "range_ok r"
  then have ne: "set (values r) \<noteq> {}" by (simp add: range_ok_def)
  have "Min (insert v (set (values r))) = min v (Min (set (values r)))"
    using ne by (simp add: Min_insert)
  moreover have "Max (insert v (set (values r))) = max v (Max (set (values r)))"
    using ne by (simp add: Max_insert)
  ultimately show ?thesis using ok by (simp add: range_ok_def min.commute max.commute)
qed

lemma update_range_ok:
  assumes "ranges_ok ranges"
  shows "ranges_ok (update_range t nv ranges)"
proof -
  obtain name v where nv: "nv = (name, v)" by (cases nv)
  let ?fresh = "\<lparr>parameter_name = name, min_value = v, max_value = v,
                 optimal_value = None, values = [], lap_times = []\<rparr>"
  let ?obj = "case map_of ranges name of None \<Rightarrow> ?fresh | Some r \<Rightarrow> r"
  have "values ?obj = [] \<and> lap_times ?obj = [] \<and> min_value ?obj = v \<and> max_value ?obj = v
        \<or> range_ok ?obj"
  proof (cases "map_of ranges name")
    case None then show ?thesis by simp
  next
    case (Some r)
    then have "(name, r) \<in> set ranges" by (rule map_of_SomeD)
    then show ?thesis using assms Some by (auto simp: ranges_ok_def)
  qed
  then have ok: "range_ok (?obj\<lparr>values := values ?obj @ [v], lap_times := lap_times ?obj @ [t],
                     min_value := min (min_value ?obj) v, max_value := max (max_value ?obj) v\<rparr>)"
    by (rule range_ok_extend)
  show ?thesis
    unfolding ranges_ok_def
  proof (intro conjI ballI)
    show "distinct (map fst (update_range t nv ranges))"
      using assms by (simp add: update_range_def nv Let_def distinct_dict_set ranges_ok_def)
  next
    fix e assume "e \<in> set (update_range t nv ranges)"
    then have "e = (name, ?obj\<lparr>values := values ?obj @ [v], lap_times := lap_times ?obj @ [t],
                     min_value := min (min_value ?obj) v, max_value := max (max_value ?obj) v\<rparr>)
               \<or> e \<in> set ranges"
      unfolding update_range_def nv Let_def fst_conv snd_conv by (rule set_dict_set)
    then show "range_ok (snd e)" using ok assms by (auto simp: ranges_ok_def)
  qed
qed

lemma update_range_len:
  "len_of (update_range t nv ranges) n = len_of ranges n + (if n = fst nv then 1 else 0)"
  by (cases nv) (simp add: update_range_def Let_def len_of_def map_of_dict_set split: option.split)

lemma fold_update_ok: "ranges_ok ranges \<Longrightarrow> ranges_ok (fold (update_range t) ps ranges)"
  by (induction ps arbitrary: ranges) (simp_all add: update_range_ok)

lemma fold_update_len:
  "distinct (map fst ps) \<Longrightarrow>
   len_of (fold (update_range t) ps ranges) n
     = len_of ranges n + (if n \<in> fst ` set ps then 1 else 0)"
proof (induction ps arbitrary: ranges)
  case Nil then show ?case by simp
next
  case (Cons p ps)
  then show ?case by (auto simp: update_range_len image_iff)
qed

lemma add_session_ok:
  "ranges_ok (parameter_ranges c) \<Longrightarrow> ranges_ok (parameter_ranges (add_session a c))"
  by (cases a) (simp add: add_session_def update_parameter_ranges_def fold_update_ok)

lemma add_session_len:
  "len_of (parameter_ranges (add_session a c)) n
     = len_of (parameter_ranges c) n + (if mentions n a then 1 else 0)"
  by (cases a) (simp add: add_session_def update_parameter_ranges_def fold_update_len
      distinct_extract mentions_def)


lemma fold_add_session_ok:
  "ranges_ok (parameter_ranges c) \<Longrightarrow> ranges_ok (parameter_ranges (fold add_session xs c))"
  by (induction xs arbitrary: c) (simp_all add: add_session_ok)

lemma fold_add_session_len:
  "len_of (parameter_ranges (fold add_session xs c)) n
     = len_of (parameter_ranges c) n + length (filter (mentions n) xs)"
  by (induction xs arbitrary: c) (simp_all add: add_session_len)


lemma add_sessions_ok: "ranges_ok (parameter_ranges (add_sessions xs))"
  unfolding add_sessions_def
  by (rule fold_add_session_ok) (simp add: init_correlator_def ranges_ok_def)

lemma add_sessions_len:
  "len_of (parameter_ranges (add_sessions xs)) n = length (filter (mentions n) xs)"
proof -
  have "len_of (parameter_ranges init_correlator) n = 0"
    by (simp add: init_correlator_def len_of_def)
  then show ?thesis
    unfolding add_sessions_def by (simp add: fold_add_session_len)
qed


lemma two_sessions_ranges:
  "parameter_ranges (add_sessions [session_one, session_two]) =
     [(''brake_bias'', \<lparr>parameter_name = ''brake_bias'', min_value = 56, max_value = 56,
          optimal_value = None, values = [56, 56], lap_times = [92, 91]\<rparr>),
      (''brake_pressure'', \<lparr>parameter_name = ''brake_pressure'', min_value = 80, max_value = 90,
          optimal_value = None, values = [80, 90], lap_times = [92, 91]\<rparr>)]"
  by (simp add: add_sessions_def init_correlator_def add_session_def session_one_def
      session_two_def brakes_only_def update_parameter_ranges_def extract_setup_parameters_def
      on_section_def extract_brakes_def update_range_def Let_def)

text \<open>
  Claim C10.  After any sequence of \<open>add_session\<close> calls on a fresh correlator, every
  entry of \<open>parameter_ranges\<close> has \<open>min_value\<close> the minimum and \<open>max_value\<close> the maximum
  of its \<open>values\<close> list, its \<open>values\<close> and \<open>lap_times\<close> lists have the same length, and
  that length is the number of sessions whose setup had the parameter.
\<close>

theorem parameter_ranges_invariant:
  assumes "(name, r) \<in> set (parameter_ranges (add_sessions xs))"
  shows "min_value r = Min (set (values r)) \<and> max_value r = Max (set (values r))
       \<and> length (values r) = length (lap_times r)
       \<and> length (values r) = length (filter (mentions name) xs)"
proof -
  have ok: "ranges_ok (parameter_ranges (add_sessions xs))" by (rule add_sessions_ok)
  then have "range_ok r" using assms by (auto simp: ranges_ok_def)
  moreover have "map_of (parameter_ranges (add_sessions xs)) name = Some r"
    using ok assms by (simp add: ranges_ok_def)
  then have "length (values r) = length (filter (mentions name) xs)"
    using add_sessions_len[of xs name] by (simp add: len_of_def)
  ultimately show ?thesis by (simp add: range_ok_def)
qed

theorem parameter_ranges_invariant_witness:
  "(''brake_pressure'', \<lparr>parameter_name = ''brake_pressure'', min_value = 80, max_value = 90,
          optimal_value = None, values = [80, 90], lap_times = [92, 91]\<rparr>)
     \<in> set (parameter_ranges (add_sessions [session_one, session_two]))
   \<and> length (filter (mentions ''brake_pressure'') [session_one, session_two]) = 2"
  using parameter_ranges_invariant
    [of "''brake_pressure''"
        "\<lparr>parameter_name = ''brake_pressure'', min_value = 80, max_value = 90,
          optimal_value = None, values = [80, 90], lap_times = [92, 91]\<rparr>"
        "[session_one, session_two]"]
  by (simp add: two_sessions_ranges)

section \<open>Correlation analysis never raises\<close>















section \<open>The fixed escalation of rear lock-up and power oversteer\<close>

lemma evaluate_rear: "evaluate RearLockupRule = rear_lockup_evaluate"
  by (simp add: RearLockupRule_def rule_base.extend_def rule_base.defs rule.defs)

lemma evaluate_power: "evaluate PowerOversteerRule = power_oversteer_evaluate"
  by (simp add: PowerOversteerRule_def rule_base.extend_def rule_base.defs rule.defs)

lemma set_map_filter_Some:
  "set (List.map_filter f xs) = {y. \<exists>x\<in>set xs. f x = Some y}"
  by (induction xs) (auto simp: map_filter_simps split: option.splits)

lemma engine_set:
  "set (engine_evaluate rules ctx) = {d. \<exists>r\<in>set rules. evaluate r ctx = Some d}"
  by (simp add: engine_evaluate_def set_map_filter_Some)

lemma rear_lockup_fires:
  assumes "any_keyword rear_lockup_keywords (lower (driver_feedback ctx))"
  shows "\<exists>d. evaluate RearLockupRule ctx = Some d \<and> severity d = CRITICAL"
  using assms by (simp add: evaluate_rear rear_lockup_evaluate_def Let_def)

lemma power_oversteer_fires:
  assumes "any_keyword power_oversteer_keywords (lower (driver_feedback ctx))"
  shows "\<exists>d. evaluate PowerOversteerRule ctx = Some d \<and> severity d = CRITICAL"
  using assms by (simp add: evaluate_power power_oversteer_evaluate_def Let_def)

lemma engine_keeps:
  "r \<in> set rules \<Longrightarrow> evaluate r ctx = Some d \<Longrightarrow> d \<in> set (engine_evaluate rules ctx)"
  by (auto simp: engine_set)

text \<open>
  Claim C9.  Whenever the lower-cased driver feedback contains a rear lock-up keyword,
  \<open>RearLockupRule.evaluate\<close> returns a diagnostic of severity CRITICAL, and likewise
  \<open>PowerOversteerRule.evaluate\<close> for a power-oversteer keyword; when the rule is
  registered, that same diagnostic, still CRITICAL, is among those
  \<open>RuleEngine.evaluate\<close> returns.
\<close>

theorem critical_override:
  "(any_keyword rear_lockup_keywords (lower (driver_feedback ctx)) \<longrightarrow>
      (\<exists>d. evaluate RearLockupRule ctx = Some d \<and> severity d = CRITICAL
         \<and> (RearLockupRule \<in> set rules \<longrightarrow> d \<in> set (engine_evaluate rules ctx))))
   \<and> (any_keyword power_oversteer_keywords (lower (driver_feedback ctx)) \<longrightarrow>
      (\<exists>d. evaluate PowerOversteerRule ctx = Some d \<and> severity d = CRITICAL
         \<and> (PowerOversteerRule \<in> set rules \<longrightarrow> d \<in> set (engine_evaluate rules ctx))))"
  using rear_lockup_fires [of ctx] power_oversteer_fires [of ctx]
    engine_keeps [of RearLockupRule rules ctx] engine_keeps [of PowerOversteerRule rules ctx]
  by blast

lemma lower_lockup: "lower (driver_feedback lockup_context) = ''rear lockup at t1''"
  unfolding lockup_context_def by code_simp

lemma lower_snap: "lower (driver_feedback snap_context) = ''snap oversteer on exit''"
  unfolding snap_context_def by code_simp

lemma k1: "any_keyword rear_lockup_keywords ''rear lockup at t1''"
  by (simp add: any_keyword_def rear_lockup_keywords_def)

lemma k2: "any_keyword power_oversteer_keywords ''snap oversteer on exit''"
  by (simp add: any_keyword_def power_oversteer_keywords_def)

theorem critical_override_witness:
  "any_keyword rear_lockup_keywords (lower (driver_feedback lockup_context))
   \<and> any_keyword power_oversteer_keywords (lower (driver_feedback snap_context))
   \<and> (\<exists>d \<in> set (engine_evaluate [PowerOversteerRule, RearLockupRule] lockup_context).
         severity d = CRITICAL)
   \<and> (\<exists>d \<in> set (engine_evaluate [PowerOversteerRule, RearLockupRule] snap_context).
         severity d = CRITICAL)"
  using critical_override [of lockup_context "[PowerOversteerRule, RearLockupRule]"]
    critical_override [of snap_context "[PowerOversteerRule, RearLockupRule]"]
  by (auto simp: lower_lockup lower_snap k1 k2)

section \<open>De-duplication and the cap of the recommendation list\<close>

lemma unique_recs_subset: "set (unique_recs seen rs) \<subseteq> set rs"
  by (induction rs arbitrary: seen) auto

lemma unique_recs_unseen: "r \<in> set (unique_recs seen rs) \<Longrightarrow> parameter r \<notin> set seen"
proof (induction rs arbitrary: seen)
  case Nil then show ?case by simp
next
  case (Cons a rs)
  show ?case
  proof (cases "parameter a \<in> set seen")
    case True
    then show ?thesis using Cons by simp
  next
    case False
    then have "r = a \<or> r \<in> set (unique_recs (parameter a # seen) rs)"
      using Cons.prems by simp
    then show ?thesis
    proof
      assume "r = a" then show ?thesis using False by simp
    next
      assume "r \<in> set (unique_recs (parameter a # seen) rs)"
      then have "parameter r \<notin> set (parameter a # seen)" by (rule Cons.IH)
      then show ?thesis by simp
    qed
  qed
qed

lemma unique_recs_distinct: "distinct (map parameter (unique_recs seen rs))"
proof (induction rs arbitrary: seen)
  case Nil then show ?case by simp
next
  case (Cons a rs)
  have "parameter a \<notin> parameter ` set (unique_recs (parameter a # seen) rs)"
  proof
    assume "parameter a \<in> parameter ` set (unique_recs (parameter a # seen) rs)"
    then obtain x where x: "x \<in> set (unique_recs (parameter a # seen) rs)"
      "parameter x = parameter a" by auto
    from unique_recs_unseen[OF x(1)] x(2) show False by simp
  qed
  then show ?case using Cons.IH by simp
qed

lemma unique_recs_first:
  assumes "sorted (map (\<lambda>r. - real_of_int (priority r)) rs)"
    and "r \<in> set (unique_recs seen rs)" and "r' \<in> set rs" and "parameter r' = parameter r"
  shows "priority r' \<le> priority r"
  using assms
proof (induction rs arbitrary: seen)
  case Nil then show ?case by simp
next
  case (Cons a rs)
  have top: "\<forall>x\<in>set rs. priority x \<le> priority a" using Cons.prems(1) by auto
  have srt: "sorted (map (\<lambda>r. - real_of_int (priority r)) rs)" using Cons.prems(1) by simp
  show ?case
  proof (cases "parameter a \<in> set seen")
    case True
    then have r: "r \<in> set (unique_recs seen rs)" using Cons.prems(2) by simp
    then have "parameter r \<notin> set seen" by (rule unique_recs_unseen)
    then have "r' \<noteq> a" using True Cons.prems(4) by auto
    then have "r' \<in> set rs" using Cons.prems(3) by simp
    then show ?thesis using Cons.IH[OF srt r _ Cons.prems(4)] by simp
  next
    case False
    then have "r = a \<or> r \<in> set (unique_recs (parameter a # seen) rs)"
      using Cons.prems(2) by simp
    then show ?thesis
    proof
      assume "r = a"
      then show ?thesis using top Cons.prems(3) by auto
    next
      assume r: "r \<in> set (unique_recs (parameter a # seen) rs)"
      then have "parameter r \<notin> set (parameter a # seen)" by (rule unique_recs_unseen)
      then have "r' \<noteq> a" using Cons.prems(4) by auto
      then have "r' \<in> set rs" using Cons.prems(3) by simp
      then show ?thesis using Cons.IH[OF srt r _ Cons.prems(4)] by simp
    qed
  qed
qed

lemma sorted_desc_sorted: "sorted (map (\<lambda>x. - k x) (sorted_desc k xs))"
  by (simp add: sorted_desc_def)

lemma set_sorted_desc: "set (sorted_desc k xs) = set xs"
  by (simp add: sorted_desc_def)

lemma generate_subset: "set (generate_recommendations st) \<subseteq> set (collect_recommendations st)"
proof -
  have "set (generate_recommendations st)
        \<subseteq> set (unique_recs [] (sorted_desc (\<lambda>r. real_of_int (priority r)) (collect_recommendations st)))"
    unfolding generate_recommendations_def by (rule set_take_subset)
  also have "\<dots> \<subseteq> set (sorted_desc (\<lambda>r. real_of_int (priority r)) (collect_recommendations st))"
    by (rule unique_recs_subset)
  finally show ?thesis by (simp add: set_sorted_desc)
qed

text \<open>
  Claim C3.  For every analyzer state the list returned by \<open>generate_recommendations\<close>
  has at most 5 elements, no two of them share a parameter name, each of them is one of
  the recommendations built, and none of the recommendations built for the same parameter
  name has a higher priority than the one kept.
\<close>

theorem recommendations_capped_unique:
  "length (generate_recommendations st) \<le> 5
   \<and> distinct (map parameter (generate_recommendations st))
   \<and> set (generate_recommendations st) \<subseteq> set (collect_recommendations st)
   \<and> (\<forall>r\<in>set (generate_recommendations st). \<forall>r'\<in>set (collect_recommendations st).
         parameter r' = parameter r \<longrightarrow> priority r' \<le> priority r)"
proof (intro conjI ballI impI)
  show "length (generate_recommendations st) \<le> 5"
    by (simp add: generate_recommendations_def)
  show "distinct (map parameter (generate_recommendations st))"
    unfolding generate_recommendations_def take_map[symmetric]
    by (rule distinct_take) (rule unique_recs_distinct)
  show "set (generate_recommendations st) \<subseteq> set (collect_recommendations st)"
    by (rule generate_subset)
next
  fix r r'
  let ?srt = "sorted_desc (\<lambda>r. real_of_int (priority r)) (collect_recommendations st)"
  assume "r \<in> set (generate_recommendations st)"
  then have r: "r \<in> set (unique_recs [] ?srt)"
    unfolding generate_recommendations_def by (rule in_set_takeD)
  assume "r' \<in> set (collect_recommendations st)"
  then have r': "r' \<in> set ?srt" by (simp add: set_sorted_desc)
  assume "parameter r' = parameter r"
  with unique_recs_first[OF sorted_desc_sorted r r'] show "priority r' \<le> priority r" .
qed

lemmas find_eval = find_solutions_def init_parameters_def map_filter_simps candidate_def
  effect_on_def conflicts_def sorted_desc_def Let_def

lemma dup_collect:
  "map (\<lambda>r. (parameter r, priority r)) (collect_recommendations oversteer_then_brakes)
     = [(''Repartition Freinage'', 8), (''Diff Deceleration'', 8), (''Repartition Freinage'', 5)]"
  by (simp add: collect_recommendations_def oversteer_then_brakes_def
      analyzer_with_def sorted_desc_def find_eval make_recommendation_def py_int_def
      track_effects_def track_effect_def)

lemma dup_generate:
  "map (\<lambda>r. (parameter r, priority r)) (generate_recommendations oversteer_then_brakes)
     = [(''Repartition Freinage'', 8), (''Diff Deceleration'', 8)]"
  by (simp add: generate_recommendations_def collect_recommendations_def oversteer_then_brakes_def
      analyzer_with_def sorted_desc_def find_eval make_recommendation_def py_int_def
      track_effects_def track_effect_def)

theorem recommendations_capped_unique_witness:
  "map (\<lambda>r. (parameter r, priority r)) (collect_recommendations oversteer_then_brakes)
     = [(''Repartition Freinage'', 8), (''Diff Deceleration'', 8), (''Repartition Freinage'', 5)]
   \<and> map (\<lambda>r. (parameter r, priority r)) (generate_recommendations oversteer_then_brakes)
     = [(''Repartition Freinage'', 8), (''Diff Deceleration'', 8)]
   \<and> length (generate_recommendations oversteer_then_brakes) \<le> 5
   \<and> distinct (map parameter (generate_recommendations oversteer_then_brakes))
   \<and> priority (collect_recommendations oversteer_then_brakes ! 2)
       \<le> priority (generate_recommendations oversteer_then_brakes ! 0)"
proof -
  let ?g = "generate_recommendations oversteer_then_brakes"
  let ?c = "collect_recommendations oversteer_then_brakes"
  have lg: "length ?g = 2" using arg_cong[OF dup_generate, of length] by simp
  have lc: "length ?c = 3" using arg_cong[OF dup_collect, of length] by simp
  have g0: "?g ! 0 \<in> set ?g" using lg by simp
  have c2: "?c ! 2 \<in> set ?c" using lc by simp
  have "map (\<lambda>r. (parameter r, priority r)) ?g ! 0 = (''Repartition Freinage'', 8)"
    unfolding dup_generate by simp
  then have pg: "parameter (?g ! 0) = ''Repartition Freinage''" using lg by simp
  have "map (\<lambda>r. (parameter r, priority r)) ?c ! 2 = (''Repartition Freinage'', 5)"
    unfolding dup_collect by simp
  then have pc: "parameter (?c ! 2) = ''Repartition Freinage''" using lc by simp
  from recommendations_capped_unique [of oversteer_then_brakes] g0 c2 pg pc
  have "priority (?c ! 2) \<le> priority (?g ! 0)" by metis
  moreover have "length ?g \<le> 5 \<and> distinct (map parameter ?g)"
    using recommendations_capped_unique [of oversteer_then_brakes] by blast
  ultimately show ?thesis using dup_collect dup_generate by blast
qed

section \<open>Priority and confidence of a recommendation\<close>









section \<open>The conflict penalty\<close>













section \<open>Understeer on corner entry\<close>

lemma entry_if_simps [simp]:
  "entry_if True k v = [(k, v)]" "entry_if False k v = []"
  by (simp_all add: entry_if_def)
















end
